theory Spec2Isabelle
  imports Main "HOL-Library.AList" "HOL-Library.Word"
begin

section \<open>Values of the host language\<close>

text \<open>
  A JavaScript number, as far as \<^verbatim>\<open>src/renderer.ts\<close> can see one: the status of a
  response and whatever \<^verbatim>\<open>parseInt\<close> returns. \<open>parseInt\<close> returns \<open>NaN\<close>, an
  integer-valued number, or an infinity (for a digit string too long for a double);
  \<open>Finite 0\<close> stands for both zeros, which \<^verbatim>\<open>&&\<close> and \<^verbatim>\<open>===\<close> do not tell apart.
\<close>

datatype number = NaN | Finite int | PosInfinity | NegInfinity

text \<open>Truthiness of a number: \<open>NaN\<close> and zero are falsy, every other number is truthy.\<close>

fun truthy :: "number \<Rightarrow> bool" where
  "truthy NaN = False"
| "truthy (Finite n) = (n \<noteq> 0)"
| "truthy PosInfinity = True"
| "truthy NegInfinity = True"

text \<open>
  A plain object (the \<^verbatim>\<open>options\<close> bag of \<^verbatim>\<open>screenshot\<close>): its own properties in
  insertion order. Assigning to a key that is present replaces the value in place,
  assigning to a new key appends it, which is what \<open>AList.update\<close> does.
\<close>

datatype jsval = JStr string | JNum number | JBool bool | JObj "(string \<times> jsval) list"

type_synonym object = "(string \<times> jsval) list"

type_synonym buffer = "8 word list"

text \<open>The outcome of an awaited call: the promise resolves with a value or rejects.\<close>

datatype 'a outcome = Resolves 'a | Rejects string

section \<open>The types of \<^verbatim>\<open>renderer.ts\<close>\<close>

record SerializedResponse =
  status :: number
  content :: string

record ViewportDimensions =
  width :: int
  height :: int

text \<open>
  Modelled from the spec: \<^verbatim>\<open>Config\<close> is imported from \<^verbatim>\<open>./config\<close>, which is not part of
  the sources at hand; the renderer reads its fields \<^verbatim>\<open>width\<close>, \<^verbatim>\<open>height\<close> and
  \<^verbatim>\<open>timeout\<close> and no other.
\<close>

record Config =
  width :: int
  height :: int
  timeout :: int

definition MOBILE_USERAGENT :: string where
  "MOBILE_USERAGENT =
     ''Mozilla/5.0 (Linux; Android 8.0.0; Pixel 2 XL Build/OPD1.170816.004) AppleWebKit/537.36 (KHTML, like Gecko) Chrome/68.0.3440.75 Mobile Safari/537.36''"

datatype ErrorType = Forbidden | NoResponse

fun ErrorType_string :: "ErrorType \<Rightarrow> string" where
  "ErrorType_string Forbidden = ''Forbidden''"
| "ErrorType_string NoResponse = ''NoResponse''"

text \<open>
  \<^verbatim>\<open>class ScreenshotError extends Error\<close>: the constructor passes the type to
  \<^verbatim>\<open>Error\<close> as the message, sets \<^verbatim>\<open>name\<close> to the name of the class and stores the type.
\<close>

record ScreenshotError =
  message :: string
  name :: string
  type :: ErrorType

definition new_ScreenshotError :: "ErrorType \<Rightarrow> ScreenshotError" where
  "new_ScreenshotError t =
     \<lparr>message = ErrorType_string t, name = ''ScreenshotError'', type = t\<rparr>"

text \<open>
  What a call of the renderer can throw: its own \<open>ScreenshotError\<close>, or the rejection of
  an awaited browser call that no \<^verbatim>\<open>try\<close> or \<^verbatim>\<open>.catch\<close> surrounds.
\<close>

datatype thrown = Screenshot_Error ScreenshotError | Rejection string

section \<open>The browser, seen from one call\<close>

text \<open>
  \<^verbatim>\<open>puppeteer.Response\<close>: the renderer only reads \<^verbatim>\<open>status()\<close>.
\<close>

record Response =
  response_status :: int

text \<open>A DOM element: its attributes. \<^verbatim>\<open>getAttribute\<close> returns \<^verbatim>\<open>null\<close> for a missing one.\<close>

type_synonym element = "(string \<times> string) list"

definition getAttribute :: "element \<Rightarrow> string \<Rightarrow> string option" where
  "getAttribute el a = map_of el a"

text \<open>
  The browser is outside the program. One value of \<open>Browser\<close> fixes how it answers during
  one call of \<^verbatim>\<open>serialize\<close> or \<^verbatim>\<open>screenshot\<close>; every theorem quantifies over it.
  \<^item> \<open>browser_newPage\<close>, \<open>page_setViewport\<close>, \<open>page_evaluate\<close>, \<open>page_screenshot\<close>,
    \<open>page_close\<close>: the outcome of the awaited call;
  \<^item> \<open>page_responses\<close>: the \<^verbatim>\<open>'response'\<close> events the page emits while \<^verbatim>\<open>page.goto\<close> is
    pending, in order. Events emitted later find \<^verbatim>\<open>response\<close> set, or are never read;
  \<^item> \<open>page_goto\<close>: \<^verbatim>\<open>page.goto\<close> resolves with a response, resolves with \<^verbatim>\<open>null\<close>, or
    rejects (timeout, DNS failure, protocol error);
  \<^item> \<open>page_querySelector\<close>: the first element that matches the selector of \<^verbatim>\<open>page.$eval\<close>,
    \<open>None\<close> when there is none (then \<^verbatim>\<open>$eval\<close> rejects), or a rejection of the call itself.
\<close>

record Browser =
  browser_newPage :: "unit outcome"
  page_setViewport :: "unit outcome"
  page_responses :: "Response list"
  page_goto :: "Response option outcome"
  page_querySelector :: "element option outcome"
  page_evaluate :: "string outcome"
  page_screenshot :: "buffer outcome"
  page_close :: "unit outcome"

text \<open>
  The calls made on the browser, the page and the console, in the order they are made,
  with their arguments. A call is recorded when it is made, whatever its outcome.
\<close>

datatype call =
    NewPage
  | SetViewport int int bool
  | SetUserAgent string
  | On string
  | Goto string int string
  | ConsoleError "string list"
  | Eval string
  | Evaluate
  | Screenshot object
  | Close

section \<open>\<^verbatim>\<open>Renderer.serialize\<close>\<close>

text \<open>The listener of line 48: it keeps the first response it sees.\<close>

definition listener :: "Response option \<Rightarrow> Response \<Rightarrow> Response option" where
  "listener response r = (if response = None then Some r else response)"

text \<open>
  Lines 45 to 62. \<^verbatim>\<open>response\<close> starts as \<^verbatim>\<open>null\<close>; the listener runs on every event while
  \<^verbatim>\<open>page.goto\<close> is pending; when \<^verbatim>\<open>page.goto\<close> resolves, its value is assigned to
  \<^verbatim>\<open>response\<close>; when it rejects, the assignment does not happen and the error is logged.
\<close>

definition serialize_goto :: "Config \<Rightarrow> Browser \<Rightarrow> string \<Rightarrow> Response option \<times> call list" where
  "serialize_goto config b requestUrl =
     (let response = None;
          t = [On ''response'', Goto requestUrl (timeout config) ''networkidle0''];
          response = foldl listener response (page_responses b)
      in case page_goto b of
           Resolves r \<Rightarrow> (r, t)
         | Rejects e \<Rightarrow> (response, t @ [ConsoleError [''Error navigating to page:'', e]]))"

text \<open>\<^verbatim>\<open>x || ''\<close> on the result of \<^verbatim>\<open>getAttribute\<close>: \<^verbatim>\<open>null\<close> and the empty string are falsy.\<close>

definition or_empty :: "string option \<Rightarrow> string" where
  "or_empty x = (case x of None \<Rightarrow> '''' | Some s \<Rightarrow> if s = '''' then '''' else s)"

text \<open>
  Lines 72 to 74: \<^verbatim>\<open>page.$eval(selector, callback).catch(() => undefined)\<close>. The builtin
  \<^verbatim>\<open>parseInt(_, 10)\<close> is a parameter. \<open>None\<close> is \<^verbatim>\<open>undefined\<close>.
\<close>

definition newStatusCode :: "(string \<Rightarrow> number) \<Rightarrow> Browser \<Rightarrow> number option" where
  "newStatusCode parseInt b =
     (case page_querySelector b of
        Resolves (Some element) \<Rightarrow> Some (parseInt (or_empty (getAttribute element ''content'')))
      | Resolves None \<Rightarrow> None
      | Rejects e \<Rightarrow> None)"

text \<open>Lines 71 and 76 to 82: the status that \<^verbatim>\<open>serialize\<close> reports.\<close>

definition statusCode :: "Response \<Rightarrow> number option \<Rightarrow> number" where
  "statusCode response new =
     (let code = Finite (response_status response);
          code = (if code = Finite 304 then Finite 200 else code)
      in case new of
           None \<Rightarrow> code
         | Some n \<Rightarrow> if code = Finite 200 \<and> truthy n then n else code)"

definition serialize ::
  "(string \<Rightarrow> number) \<Rightarrow> Config \<Rightarrow> Browser \<Rightarrow> string \<Rightarrow> bool
     \<Rightarrow> (thrown + SerializedResponse) \<times> call list" where
  "serialize parseInt config b requestUrl isMobile =
     (let t = [NewPage] in
      case browser_newPage b of
        Rejects e \<Rightarrow> (Inl (Rejection e), t)
      | Resolves _ \<Rightarrow>
     (let t = t @ [SetViewport (Config.width config) (Config.height config) isMobile] in
      case page_setViewport b of
        Rejects e \<Rightarrow> (Inl (Rejection e), t)
      | Resolves _ \<Rightarrow>
     (let t = (if isMobile then t @ [SetUserAgent MOBILE_USERAGENT] else t);
          (response, t') = serialize_goto config b requestUrl;
          t = t @ t'
      in case response of
        None \<Rightarrow>
          (let t = t @ [ConsoleError [''No response received for the requested URL''], Close] in
           case page_close b of
             Rejects e \<Rightarrow> (Inl (Rejection e), t)
           | Resolves _ \<Rightarrow> (Inr \<lparr>status = Finite 400, content = ''''\<rparr>, t))
      | Some response \<Rightarrow>
          (let t = t @ [Eval ''meta[name=\"render:status_code\"]''];
               code = statusCode response (newStatusCode parseInt b);
               t = t @ [Evaluate]
           in case page_evaluate b of
             Rejects e \<Rightarrow> (Inl (Rejection e), t)
           | Resolves result \<Rightarrow>
          (let t = t @ [Close] in
           case page_close b of
             Rejects e \<Rightarrow> (Inl (Rejection e), t)
           | Resolves _ \<Rightarrow> (Inr \<lparr>status = code, content = result\<rparr>, t))))))"

section \<open>\<^verbatim>\<open>Renderer.screenshot\<close>\<close>

text \<open>Lines 110 to 120: no listener; \<^verbatim>\<open>response\<close> is set by \<^verbatim>\<open>page.goto\<close> alone.\<close>

definition screenshot_goto :: "Browser \<Rightarrow> string \<Rightarrow> Response option \<times> call list" where
  "screenshot_goto b requestUrl =
     (let response = None;
          t = [Goto requestUrl 10000 ''networkidle0'']
      in case page_goto b of
           Resolves r \<Rightarrow> (r, t)
         | Rejects e \<Rightarrow> (response, t @ [ConsoleError [''Error navigating to page for screenshot:'', e]]))"

text \<open>
  Lines 126 to 130: \<^verbatim>\<open>{...options, type: 'jpeg', encoding: 'binary'}\<close>. Spreading
  \<^verbatim>\<open>undefined\<close> adds nothing.
\<close>

definition screenshotOptions :: "object option \<Rightarrow> object" where
  "screenshotOptions options =
     AList.update ''encoding'' (JStr ''binary'')
       (AList.update ''type'' (JStr ''jpeg'')
          (case options of None \<Rightarrow> [] | Some ps \<Rightarrow> ps))"

definition screenshot ::
  "Browser \<Rightarrow> string \<Rightarrow> bool \<Rightarrow> ViewportDimensions \<Rightarrow> object option
     \<Rightarrow> (thrown + buffer) \<times> call list" where
  "screenshot b requestUrl isMobile dimensions options =
     (let t = [NewPage] in
      case browser_newPage b of
        Rejects e \<Rightarrow> (Inl (Rejection e), t)
      | Resolves _ \<Rightarrow>
     (let t = t @ [SetViewport (ViewportDimensions.width dimensions)
                               (ViewportDimensions.height dimensions) isMobile] in
      case page_setViewport b of
        Rejects e \<Rightarrow> (Inl (Rejection e), t)
      | Resolves _ \<Rightarrow>
     (let t = (if isMobile then t @ [SetUserAgent MOBILE_USERAGENT] else t);
          (response, t') = screenshot_goto b requestUrl;
          t = t @ t'
      in case response of
        None \<Rightarrow> (Inl (Screenshot_Error (new_ScreenshotError NoResponse)), t)
      | Some response \<Rightarrow>
          (let t = t @ [Screenshot (screenshotOptions options)] in
           case page_screenshot b of
             Rejects e \<Rightarrow> (Inl (Rejection e), t)
           | Resolves buffer \<Rightarrow>
          (let t = t @ [Close] in
           case page_close b of
             Rejects e \<Rightarrow> (Inl (Rejection e), t)
           | Resolves _ \<Rightarrow> (Inr buffer, t))))))"

section \<open>Observing the calls\<close>

fun isGoto :: "call \<Rightarrow> bool" where
  "isGoto (Goto u n w) = True"
| "isGoto c = False"


fun isScreenshot :: "call \<Rightarrow> bool" where
  "isScreenshot (Screenshot opts) = True"
| "isScreenshot c = False"

section \<open>A decimal \<^verbatim>\<open>parseInt\<close> and a browser for the examples\<close>

text \<open>
  \<^verbatim>\<open>parseInt(string, 10)\<close> of ECMAScript on strings of ASCII characters: leading white
  space is dropped, one sign is read, then the longest run of decimal digits; no digit
  gives \<open>NaN\<close>. The value is exact, as the builtin is below \<open>2 ^ 53\<close>. The theorems below
  hold for any function in its place; the examples use this one.
\<close>

definition isWhiteSpace :: "char \<Rightarrow> bool" where
  "isWhiteSpace c = (c \<in> set [CHR 0x09, CHR 0x0A, CHR 0x0B, CHR 0x0C, CHR 0x0D, CHR 0x20])"

definition digit :: "char \<Rightarrow> int option" where
  "digit c = map_of (zip ''0123456789'' [0, 1, 2, 3, 4, 5, 6, 7, 8, 9]) c"

fun digits :: "string \<Rightarrow> int list" where
  "digits [] = []"
| "digits (c # cs) = (case digit c of None \<Rightarrow> [] | Some d \<Rightarrow> d # digits cs)"

definition parseInt10 :: "string \<Rightarrow> number" where
  "parseInt10 string =
     (let s = dropWhile isWhiteSpace string;
          sign = (if s \<noteq> [] \<and> hd s = CHR ''-'' then - 1 else 1);
          s = (if s \<noteq> [] \<and> (hd s = CHR ''+'' \<or> hd s = CHR ''-'') then tl s else s);
          z = digits s
      in if z = [] then NaN else Finite (sign * foldl (\<lambda>n d. 10 * n + d) 0 z))"

definition example_config :: Config where
  "example_config = \<lparr>width = 1000, height = 1000, timeout = 10000\<rparr>"

definition example_dimensions :: ViewportDimensions where
  "example_dimensions = \<lparr>ViewportDimensions.width = 800, ViewportDimensions.height = 600\<rparr>"

text \<open>
  A browser whose other calls all resolve, given the outcome of the navigation, the
  response events seen meanwhile and the outcome of the lookup of the meta tag.
\<close>

definition example_browser ::
  "Response option outcome \<Rightarrow> Response list \<Rightarrow> element option outcome \<Rightarrow> Browser" where
  "example_browser nav events meta =
     \<lparr>browser_newPage = Resolves (), page_setViewport = Resolves (),
      page_responses = events, page_goto = nav, page_querySelector = meta,
      page_evaluate = Resolves ''<html></html>'', page_screenshot = Resolves [0xFF, 0xD8],
      page_close = Resolves ()\<rparr>"

definition meta_tag :: "string \<Rightarrow> element" where
  "meta_tag c = [(''name'', ''render:status_code''), (''content'', c)]"

section \<open>Lemmas about the model\<close>

text \<open>The listener keeps the first event: later events do not replace it.\<close>

lemma foldl_listener_Some: "foldl listener (Some r) rs = Some r"
  by (induction rs) (simp_all add: listener_def)

lemma foldl_listener_None:
  "foldl listener None rs = (case rs of [] \<Rightarrow> None | r # rs' \<Rightarrow> Some r)"
  by (cases rs) (simp_all add: listener_def foldl_listener_Some)

lemma fst_serialize_goto:
  "fst (serialize_goto config b requestUrl) =
     (case page_goto b of
        Resolves r \<Rightarrow> r
      | Rejects e \<Rightarrow> (case page_responses b of [] \<Rightarrow> None | r # rs \<Rightarrow> Some r))"
  by (simp add: serialize_goto_def foldl_listener_None split: outcome.splits)

lemma serialize_returns:
  assumes "browser_newPage b = Resolves ()" and "page_setViewport b = Resolves ()"
    and "page_evaluate b = Resolves html" and "page_close b = Resolves ()"
  shows "fst (serialize parseInt config b requestUrl isMobile) =
     (case fst (serialize_goto config b requestUrl) of
        None \<Rightarrow> Inr \<lparr>status = Finite 400, content = ''''\<rparr>
      | Some response \<Rightarrow>
          Inr \<lparr>status = statusCode response (newStatusCode parseInt b), content = html\<rparr>)"
  using assms by (simp add: serialize_def Let_def split: prod.splits option.splits)

text \<open>The calls of \<^verbatim>\<open>serialize\<close> on the path without a response, and its single navigation.\<close>

lemma snd_serialize_no_response:
  assumes "browser_newPage b = Resolves ()" and "page_setViewport b = Resolves ()"
    and "fst (serialize_goto config b requestUrl) = None"
  shows "snd (serialize parseInt config b requestUrl isMobile) =
           [NewPage, SetViewport (Config.width config) (Config.height config) isMobile]
           @ (if isMobile then [SetUserAgent MOBILE_USERAGENT] else [])
           @ snd (serialize_goto config b requestUrl)
           @ [ConsoleError [''No response received for the requested URL''], Close]"
  using assms
  by (cases "serialize_goto config b requestUrl")
     (simp add: serialize_def Let_def split: outcome.splits)

lemma filter_isGoto_serialize_goto:
  "filter isGoto (snd (serialize_goto config b requestUrl))
     = [Goto requestUrl (timeout config) ''networkidle0'']"
  by (simp add: serialize_goto_def Let_def split: outcome.splits)

text \<open>
  What \<^verbatim>\<open>serialize\<close> returns or throws, without the calls: the first of the awaited
  calls outside the \<^verbatim>\<open>try\<close> that rejects decides, in the order of the source.
\<close>

lemma fst_serialize_no_response:
  assumes "browser_newPage b = Resolves ()" and "page_setViewport b = Resolves ()"
    and "fst (serialize_goto config b requestUrl) = None"
  shows "fst (serialize parseInt config b requestUrl isMobile) =
           (case page_close b of
              Resolves u \<Rightarrow> Inr \<lparr>status = Finite 400, content = ''''\<rparr>
            | Rejects e \<Rightarrow> Inl (Rejection e))"
  using assms
  by (cases "serialize_goto config b requestUrl")
     (simp add: serialize_def Let_def split: outcome.splits)

lemma fst_serialize:
  "fst (serialize parseInt config b requestUrl isMobile) =
     (case browser_newPage b of
        Rejects e \<Rightarrow> Inl (Rejection e)
      | Resolves u \<Rightarrow>
     (case page_setViewport b of
        Rejects e \<Rightarrow> Inl (Rejection e)
      | Resolves u \<Rightarrow>
     (case fst (serialize_goto config b requestUrl) of
        None \<Rightarrow>
          (case page_close b of
             Rejects e \<Rightarrow> Inl (Rejection e)
           | Resolves u \<Rightarrow> Inr \<lparr>status = Finite 400, content = ''''\<rparr>)
      | Some response \<Rightarrow>
          (case page_evaluate b of
             Rejects e \<Rightarrow> Inl (Rejection e)
           | Resolves html \<Rightarrow>
          (case page_close b of
             Rejects e \<Rightarrow> Inl (Rejection e)
           | Resolves u \<Rightarrow>
               Inr \<lparr>status = statusCode response (newStatusCode parseInt b),
                    content = html\<rparr>)))))"
  by (cases "serialize_goto config b requestUrl")
     (simp add: serialize_def Let_def split: outcome.splits option.splits)




text \<open>
  \<^verbatim>\<open>page.evaluate\<close> is awaited outside the \<^verbatim>\<open>try\<close>: when it rejects, \<^verbatim>\<open>serialize\<close> throws the
  rejection, and \<^verbatim>\<open>page.close\<close> is not called.
\<close>

lemma serialize_evaluate_rejected:
  assumes "browser_newPage b = Resolves ()" and "page_setViewport b = Resolves ()"
    and "fst (serialize_goto config b requestUrl) = Some response"
    and "page_evaluate b = Rejects e"
  shows "fst (serialize parseInt config b requestUrl isMobile) = Inl (Rejection e)"
    and "Close \<notin> set (snd (serialize parseInt config b requestUrl isMobile))"
  using assms
  by (cases "serialize_goto config b requestUrl";
      auto simp add: serialize_def serialize_goto_def Let_def split: outcome.splits)+

text \<open>\<^verbatim>\<open>screenshot\<close>: the response, the path without a response, the options of the capture.\<close>

lemma fst_screenshot_goto:
  "fst (screenshot_goto b requestUrl) = (case page_goto b of Resolves r \<Rightarrow> r | Rejects e \<Rightarrow> None)"
  by (simp add: screenshot_goto_def Let_def split: outcome.splits)

lemma screenshot_no_response:
  assumes "browser_newPage b = Resolves ()" and "page_setViewport b = Resolves ()"
    and "fst (screenshot_goto b requestUrl) = None"
  shows "screenshot b requestUrl isMobile dimensions options =
           (Inl (Screenshot_Error (new_ScreenshotError NoResponse)),
            [NewPage, SetViewport (ViewportDimensions.width dimensions)
                                  (ViewportDimensions.height dimensions) isMobile]
            @ (if isMobile then [SetUserAgent MOBILE_USERAGENT] else [])
            @ snd (screenshot_goto b requestUrl))"
  using assms
  by (cases "screenshot_goto b requestUrl") (simp add: screenshot_def Let_def)

lemma map_of_screenshotOptions:
  "map_of (screenshotOptions options) =
     (map_of (case options of None \<Rightarrow> [] | Some ps \<Rightarrow> ps))
       (''type'' \<mapsto> JStr ''jpeg'', ''encoding'' \<mapsto> JStr ''binary'')"
  by (simp add: screenshotOptions_def update_conv')

lemma screenshot_with_response:
  assumes "browser_newPage b = Resolves ()" and "page_setViewport b = Resolves ()"
    and "fst (screenshot_goto b requestUrl) = Some response"
  shows "filter isScreenshot (snd (screenshot b requestUrl isMobile dimensions options))
           = [Screenshot (screenshotOptions options)]"
  using assms
  by (cases "screenshot_goto b requestUrl")
     (auto simp add: screenshot_def screenshot_goto_def Let_def split: outcome.splits)

lemma ErrorType_UNIV: "(UNIV :: ErrorType set) = {Forbidden, NoResponse}"
  using ErrorType.exhaust by auto

text \<open>The two ways \<^verbatim>\<open>statusCode\<close> is settled, and the unfolding of the examples.\<close>

lemmas example_defs = example_browser_def example_config_def example_dimensions_def meta_tag_def
lemmas parseInt10_defs = parseInt10_def isWhiteSpace_def digit_def or_empty_def getAttribute_def

lemma statusCode_override:
  "statusCode response (Some v) =
     (if (response_status response = 200 \<or> response_status response = 304) \<and> truthy v then v
      else if response_status response = 304 then Finite 200
      else Finite (response_status response))"
  by (simp add: statusCode_def)

lemma statusCode_None:
  "statusCode response None =
     Finite (if response_status response = 304 then 200 else response_status response)"
  by (simp add: statusCode_def)

section \<open>The claims\<close>

subsection \<open>C1: the override of the status by the meta tag\<close>

text \<open>
  C1, as amended. Let the calls outside the navigation resolve and let the navigation
  leave a response. If its status is 200 or 304, and the document has the meta tag
  \<^verbatim>\<open>render:status_code\<close> whose content \<^verbatim>\<open>parseInt\<close> reads as an integer other than
  zero, then \<^verbatim>\<open>serialize\<close> returns that integer as the status. If its status is neither
  200 nor 304, \<^verbatim>\<open>serialize\<close> returns the status of the response, whatever the meta tag says.
\<close>

theorem serialize_status_override:
  assumes "browser_newPage b = Resolves ()" and "page_setViewport b = Resolves ()"
    and "page_evaluate b = Resolves html" and "page_close b = Resolves ()"
    and "fst (serialize_goto config b requestUrl) = Some response"
  shows "(response_status response = 200 \<or> response_status response = 304 \<longrightarrow>
            page_querySelector b = Resolves (Some element) \<longrightarrow>
            parseInt (or_empty (getAttribute element ''content'')) = Finite n \<longrightarrow> n \<noteq> 0 \<longrightarrow>
            fst (serialize parseInt config b requestUrl isMobile)
              = Inr \<lparr>status = Finite n, content = html\<rparr>)
       \<and> (response_status response \<noteq> 200 \<longrightarrow> response_status response \<noteq> 304 \<longrightarrow>
            fst (serialize parseInt config b requestUrl isMobile)
              = Inr \<lparr>status = Finite (response_status response), content = html\<rparr>)"
proof -
  have r: "fst (serialize parseInt config b requestUrl isMobile)
             = Inr \<lparr>status = statusCode response (newStatusCode parseInt b), content = html\<rparr>"
    using serialize_returns [OF assms(1-4)] assms(5) by simp
  show ?thesis
    unfolding r
    by (cases "newStatusCode parseInt b")
       (auto simp add: statusCode_override statusCode_None newStatusCode_def)
qed

text \<open>
  C1 as stated fails for the content \<^verbatim>\<open>0\<close>: it is parseable as an integer, the status of
  the response is 200, and the status returned is 200 and not the parsed value 0.
\<close>

theorem serialize_override_zero_counterexample:
  "parseInt10 (or_empty (getAttribute (meta_tag ''0'') ''content'')) = Finite 0
   \<and> fst (serialize parseInt10 example_config
        (example_browser (Resolves (Some \<lparr>response_status = 200\<rparr>)) []
           (Resolves (Some (meta_tag ''0''))))
        ''http://example.com/'' False)
     = Inr \<lparr>status = Finite 200, content = ''<html></html>''\<rparr>"
  by (simp add: serialize_def serialize_goto_def statusCode_def newStatusCode_def
        example_defs parseInt10_defs)

text \<open>
  The theorem at a response of status 200 with the content \<^verbatim>\<open>404\<close>, and at a response of
  status 500 with the same meta tag.
\<close>

theorem serialize_status_override_witness:
  "fst (serialize parseInt10 example_config
        (example_browser (Resolves (Some \<lparr>response_status = 200\<rparr>)) []
           (Resolves (Some (meta_tag ''404''))))
        ''http://example.com/'' False)
     = Inr \<lparr>status = Finite 404, content = ''<html></html>''\<rparr>
   \<and> fst (serialize parseInt10 example_config
        (example_browser (Resolves (Some \<lparr>response_status = 500\<rparr>)) []
           (Resolves (Some (meta_tag ''404''))))
        ''http://example.com/'' False)
     = Inr \<lparr>status = Finite 500, content = ''<html></html>''\<rparr>"
proof -
  let ?ok = "example_browser (Resolves (Some \<lparr>response_status = 200\<rparr>)) []
               (Resolves (Some (meta_tag ''404'')))"
  let ?err = "example_browser (Resolves (Some \<lparr>response_status = 500\<rparr>)) []
               (Resolves (Some (meta_tag ''404'')))"
  have p: "parseInt10 (or_empty (getAttribute (meta_tag ''404'') ''content'')) = Finite 404"
    by (simp add: example_defs parseInt10_defs)
  have "fst (serialize_goto example_config ?ok ''http://example.com/'')
          = Some \<lparr>response_status = 200\<rparr>"
    by (simp add: serialize_goto_def example_defs)
  from serialize_status_override [where b = ?ok and html = "''<html></html>''"
      and parseInt = parseInt10 and element = "meta_tag ''404''" and n = 404
      and isMobile = False, OF _ _ _ _ this] p
  have a: "fst (serialize parseInt10 example_config ?ok ''http://example.com/'' False)
     = Inr \<lparr>status = Finite 404, content = ''<html></html>''\<rparr>"
    by (simp add: example_browser_def)
  have "fst (serialize_goto example_config ?err ''http://example.com/'')
          = Some \<lparr>response_status = 500\<rparr>"
    by (simp add: serialize_goto_def example_defs)
  from serialize_status_override [where b = ?err and html = "''<html></html>''"
      and parseInt = parseInt10 and isMobile = False, OF _ _ _ _ this]
  have b: "fst (serialize parseInt10 example_config ?err ''http://example.com/'' False)
     = Inr \<lparr>status = Finite 500, content = ''<html></html>''\<rparr>"
    by (simp add: example_browser_def)
  from a b show ?thesis by simp
qed

subsection \<open>C2: a navigation that fails and no response\<close>

text \<open>
  C2, as amended. Let opening the page and setting the viewport resolve, so that the
  navigation takes place, and let the navigation reject and no response event be seen.
  Then \<^verbatim>\<open>serialize\<close> calls
  \<^verbatim>\<open>page.goto\<close> once, its last call is \<^verbatim>\<open>page.close\<close>, and it returns exactly the status
  400 with empty content when that call resolves; when \<^verbatim>\<open>page.close\<close> rejects, \<^verbatim>\<open>serialize\<close>
  throws its rejection. \<^verbatim>\<open>screenshot\<close> throws a \<open>ScreenshotError\<close> of type \<open>NoResponse\<close> and
  returns no buffer.
\<close>

theorem navigation_failure_without_response:
  assumes "browser_newPage b = Resolves ()" and "page_setViewport b = Resolves ()"
    and "page_goto b = Rejects e" and "page_responses b = []"
  shows "fst (serialize parseInt config b requestUrl isMobile)
           = (case page_close b of
                Resolves u \<Rightarrow> Inr \<lparr>status = Finite 400, content = ''''\<rparr>
              | Rejects e' \<Rightarrow> Inl (Rejection e'))
       \<and> last (snd (serialize parseInt config b requestUrl isMobile)) = Close
       \<and> filter isGoto (snd (serialize parseInt config b requestUrl isMobile))
           = [Goto requestUrl (timeout config) ''networkidle0'']
       \<and> fst (screenshot b requestUrl isMobile dimensions options)
           = Inl (Screenshot_Error (new_ScreenshotError NoResponse))"
proof -
  have nav: "fst (serialize_goto config b requestUrl) = None"
    using assms(3,4) by (simp add: fst_serialize_goto)
  have nav': "fst (screenshot_goto b requestUrl) = None"
    using assms(3) by (simp add: fst_screenshot_goto)
  note r = fst_serialize_no_response [OF assms(1,2) nav]
  have t: "last (snd (serialize parseInt config b requestUrl isMobile)) = Close"
    by (simp add: snd_serialize_no_response [OF assms(1,2) nav])
  have g: "filter isGoto (snd (serialize parseInt config b requestUrl isMobile))
             = [Goto requestUrl (timeout config) ''networkidle0'']"
    by (simp add: snd_serialize_no_response [OF assms(1,2) nav] filter_isGoto_serialize_goto)
  have s: "fst (screenshot b requestUrl isMobile dimensions options)
             = Inl (Screenshot_Error (new_ScreenshotError NoResponse))"
    by (simp add: screenshot_no_response [OF assms(1,2) nav'])
  from r t g s show ?thesis by simp
qed

text \<open>
  C2 as stated fails when the navigation rejects, no response is seen and the call of
  line 66, \<^verbatim>\<open>page.close\<close>, rejects: \<^verbatim>\<open>serialize\<close> throws and returns no value.
\<close>

theorem serialize_close_rejected_counterexample:
  "page_goto ((example_browser (Rejects ''net::ERR_NAME_NOT_RESOLVED'') [] (Resolves None))
          \<lparr>page_close := Rejects ''Target closed''\<rparr>)
     = Rejects ''net::ERR_NAME_NOT_RESOLVED''
   \<and> page_responses ((example_browser (Rejects ''net::ERR_NAME_NOT_RESOLVED'') [] (Resolves None))
          \<lparr>page_close := Rejects ''Target closed''\<rparr>) = []
   \<and> fst (serialize parseInt10 example_config
        ((example_browser (Rejects ''net::ERR_NAME_NOT_RESOLVED'') [] (Resolves None))
          \<lparr>page_close := Rejects ''Target closed''\<rparr>)
        ''http://example.com/'' False)
     = Inl (Rejection ''Target closed'')"
  by (simp add: serialize_def serialize_goto_def example_defs)

text \<open>The theorem at a navigation that fails on the name of the host, with all the calls made.\<close>

theorem navigation_failure_without_response_witness:
  "page_goto (example_browser (Rejects ''net::ERR_NAME_NOT_RESOLVED'') [] (Resolves None))
     = Rejects ''net::ERR_NAME_NOT_RESOLVED''
   \<and> page_responses (example_browser (Rejects ''net::ERR_NAME_NOT_RESOLVED'') [] (Resolves None)) = []
   \<and> serialize parseInt10 example_config
        (example_browser (Rejects ''net::ERR_NAME_NOT_RESOLVED'') [] (Resolves None))
        ''http://example.com/'' False
      = (Inr \<lparr>status = Finite 400, content = ''''\<rparr>,
         [NewPage, SetViewport 1000 1000 False, On ''response'',
          Goto ''http://example.com/'' 10000 ''networkidle0'',
          ConsoleError [''Error navigating to page:'', ''net::ERR_NAME_NOT_RESOLVED''],
          ConsoleError [''No response received for the requested URL''], Close])
   \<and> fst (screenshot (example_browser (Rejects ''net::ERR_NAME_NOT_RESOLVED'') [] (Resolves None))
        ''http://example.com/'' False example_dimensions None)
      = Inl (Screenshot_Error
          \<lparr>message = ''NoResponse'', name = ''ScreenshotError'', type = NoResponse\<rparr>)"
proof -
  let ?b = "example_browser (Rejects ''net::ERR_NAME_NOT_RESOLVED'') [] (Resolves None)"
  have h: "browser_newPage ?b = Resolves ()" "page_setViewport ?b = Resolves ()"
    "page_goto ?b = Rejects ''net::ERR_NAME_NOT_RESOLVED''"
    "page_responses ?b = []"
    by (simp_all add: example_browser_def)
  have c: "page_close ?b = Resolves ()"
    by (simp add: example_browser_def)
  have t: "snd (serialize parseInt10 example_config ?b ''http://example.com/'' False)
      = [NewPage, SetViewport 1000 1000 False, On ''response'',
          Goto ''http://example.com/'' 10000 ''networkidle0'',
          ConsoleError [''Error navigating to page:'', ''net::ERR_NAME_NOT_RESOLVED''],
          ConsoleError [''No response received for the requested URL''], Close]"
    by (simp add: serialize_def serialize_goto_def example_defs)
  from navigation_failure_without_response [OF h, where parseInt = parseInt10
      and config = example_config and requestUrl = "''http://example.com/''"
      and isMobile = False and dimensions = example_dimensions and options = None] h c t
  show ?thesis
    by (simp add: new_ScreenshotError_def prod_eq_iff)
qed

subsection \<open>C3: which response \<^verbatim>\<open>serialize\<close> uses\<close>

text \<open>
  C3, as amended. Let the calls outside the navigation resolve. When \<^verbatim>\<open>page.goto\<close>
  resolves, \<^verbatim>\<open>serialize\<close> uses the value it resolves with: the response, or no response
  at all when it resolves with \<^verbatim>\<open>null\<close>, whatever the listener has seen. When \<^verbatim>\<open>page.goto\<close>
  rejects, \<^verbatim>\<open>serialize\<close> uses the first response the listener has seen, if any. Without
  a response it returns the status 400 and empty content.
\<close>

theorem serialize_response_source:
  assumes "browser_newPage b = Resolves ()" and "page_setViewport b = Resolves ()"
    and "page_evaluate b = Resolves html" and "page_close b = Resolves ()"
  shows "fst (serialize parseInt config b requestUrl isMobile) =
     (case (case page_goto b of
              Resolves r \<Rightarrow> r
            | Rejects e \<Rightarrow> (case page_responses b of [] \<Rightarrow> None | r # rs \<Rightarrow> Some r)) of
        None \<Rightarrow> Inr \<lparr>status = Finite 400, content = ''''\<rparr>
      | Some response \<Rightarrow>
          Inr \<lparr>status = statusCode response (newStatusCode parseInt b), content = html\<rparr>)"
  using serialize_returns [OF assms] by (simp add: fst_serialize_goto)

text \<open>
  C3 as stated fails when \<^verbatim>\<open>page.goto\<close> resolves with \<^verbatim>\<open>null\<close> after the listener has
  recorded a response of status 200: the assignment of line 56 overwrites the recorded
  response, and \<^verbatim>\<open>serialize\<close> returns the status 400 with empty content.
\<close>

theorem serialize_listener_overwritten_counterexample:
  "page_goto (example_browser (Resolves None) [\<lparr>response_status = 200\<rparr>] (Resolves None))
     = Resolves None
   \<and> foldl listener None
        (page_responses (example_browser (Resolves None) [\<lparr>response_status = 200\<rparr>] (Resolves None)))
     = Some \<lparr>response_status = 200\<rparr>
   \<and> fst (serialize parseInt10 example_config
        (example_browser (Resolves None) [\<lparr>response_status = 200\<rparr>] (Resolves None))
        ''http://example.com/'' False)
     = Inr \<lparr>status = Finite 400, content = ''''\<rparr>"
  by (simp add: serialize_def serialize_goto_def listener_def example_defs)

text \<open>
  The theorem at a navigation that times out after the responses 304 and 500 were seen
  (the first one is used), and at one that resolves with a response 404 after the same
  events (its own response is used).
\<close>

theorem serialize_response_source_witness:
  "fst (serialize parseInt10 example_config
        (example_browser (Rejects ''Navigation timeout'')
           [\<lparr>response_status = 304\<rparr>, \<lparr>response_status = 500\<rparr>] (Resolves None))
        ''http://example.com/'' False)
     = Inr \<lparr>status = Finite 200, content = ''<html></html>''\<rparr>
   \<and> fst (serialize parseInt10 example_config
        (example_browser (Resolves (Some \<lparr>response_status = 404\<rparr>))
           [\<lparr>response_status = 304\<rparr>, \<lparr>response_status = 500\<rparr>] (Resolves None))
        ''http://example.com/'' False)
     = Inr \<lparr>status = Finite 404, content = ''<html></html>''\<rparr>"
proof -
  let ?b = "example_browser (Rejects ''Navigation timeout'')
           [\<lparr>response_status = 304\<rparr>, \<lparr>response_status = 500\<rparr>] (Resolves None)"
  let ?c = "example_browser (Resolves (Some \<lparr>response_status = 404\<rparr>))
           [\<lparr>response_status = 304\<rparr>, \<lparr>response_status = 500\<rparr>] (Resolves None)"
  have hb: "browser_newPage ?b = Resolves ()" "page_setViewport ?b = Resolves ()"
    "page_evaluate ?b = Resolves ''<html></html>''" "page_close ?b = Resolves ()"
    by (simp_all add: example_browser_def)
  have hc: "browser_newPage ?c = Resolves ()" "page_setViewport ?c = Resolves ()"
    "page_evaluate ?c = Resolves ''<html></html>''" "page_close ?c = Resolves ()"
    by (simp_all add: example_browser_def)
  from serialize_response_source [OF hb, where parseInt = parseInt10
      and config = example_config and requestUrl = "''http://example.com/''" and isMobile = False]
    serialize_response_source [OF hc, where parseInt = parseInt10
      and config = example_config and requestUrl = "''http://example.com/''" and isMobile = False]
  show ?thesis
    by (simp add: example_browser_def statusCode_None newStatusCode_def)
qed

subsection \<open>C4: \<^verbatim>\<open>serialize\<close> closes the page\<close>




subsection \<open>C5: \<^verbatim>\<open>screenshot\<close> and the page\<close>

text \<open>
  C5. When \<^verbatim>\<open>screenshot\<close> returns a buffer, the last call it has made is \<^verbatim>\<open>page.close\<close>,
  and that call has resolved. When it throws a \<open>ScreenshotError\<close>, the type of the error is
  \<open>NoResponse\<close> and \<^verbatim>\<open>page.close\<close> has not been called.
\<close>

theorem screenshot_page_closing:
  "(screenshot b requestUrl isMobile dimensions options = (Inr buffer, t) \<longrightarrow>
      t \<noteq> [] \<and> last t = Close \<and> page_close b = Resolves ())
   \<and> (screenshot b requestUrl isMobile dimensions options = (Inl (Screenshot_Error err), t) \<longrightarrow>
      type err = NoResponse \<and> Close \<notin> set t)"
  by (cases "screenshot_goto b requestUrl")
     (auto simp add: screenshot_def screenshot_goto_def new_ScreenshotError_def Let_def
        split: option.splits outcome.splits if_splits)

text \<open>The theorem at a capture that succeeds and at a navigation without a response.\<close>

theorem screenshot_page_closing_witness:
  "screenshot (example_browser (Resolves (Some \<lparr>response_status = 200\<rparr>)) [] (Resolves None))
      ''http://example.com/'' False example_dimensions None
     = (Inr [0xFF, 0xD8],
        [NewPage, SetViewport 800 600 False, Goto ''http://example.com/'' 10000 ''networkidle0'',
         Screenshot [(''type'', JStr ''jpeg''), (''encoding'', JStr ''binary'')], Close])
   \<and> last [NewPage, SetViewport 800 600 False, Goto ''http://example.com/'' 10000 ''networkidle0'',
         Screenshot [(''type'', JStr ''jpeg''), (''encoding'', JStr ''binary'')], Close] = Close
   \<and> screenshot (example_browser (Resolves None) [\<lparr>response_status = 200\<rparr>] (Resolves None))
      ''http://example.com/'' False example_dimensions None
     = (Inl (Screenshot_Error (new_ScreenshotError NoResponse)),
        [NewPage, SetViewport 800 600 False, Goto ''http://example.com/'' 10000 ''networkidle0''])
   \<and> Close \<notin> set [NewPage, SetViewport 800 600 False,
                    Goto ''http://example.com/'' 10000 ''networkidle0'']"
proof -
  let ?t1 = "[NewPage, SetViewport 800 600 False, Goto ''http://example.com/'' 10000 ''networkidle0'',
         Screenshot [(''type'', JStr ''jpeg''), (''encoding'', JStr ''binary'')], Close]"
  let ?t2 = "[NewPage, SetViewport 800 600 False, Goto ''http://example.com/'' 10000 ''networkidle0'']"
  have e1: "screenshot (example_browser (Resolves (Some \<lparr>response_status = 200\<rparr>)) [] (Resolves None))
      ''http://example.com/'' False example_dimensions None = (Inr [0xFF, 0xD8], ?t1)"
    by (simp add: screenshot_def screenshot_goto_def screenshotOptions_def example_defs)
  have e2: "screenshot (example_browser (Resolves None) [\<lparr>response_status = 200\<rparr>] (Resolves None))
      ''http://example.com/'' False example_dimensions None
     = (Inl (Screenshot_Error (new_ScreenshotError NoResponse)), ?t2)"
    by (simp add: screenshot_def screenshot_goto_def example_defs)
  from screenshot_page_closing [where b = "example_browser (Resolves (Some \<lparr>response_status = 200\<rparr>)) [] (Resolves None)"
      and requestUrl = "''http://example.com/''" and isMobile = False
      and dimensions = example_dimensions and options = None
      and buffer = "[0xFF, 0xD8]" and t = ?t1] e1
  have c1: "last ?t1 = Close" by blast
  from screenshot_page_closing [where b = "example_browser (Resolves None) [\<lparr>response_status = 200\<rparr>] (Resolves None)"
      and requestUrl = "''http://example.com/''" and isMobile = False
      and dimensions = example_dimensions and options = None
      and err = "new_ScreenshotError NoResponse" and t = ?t2] e2
  have c2: "Close \<notin> set ?t2" by blast
  from e1 e2 c1 c2 show ?thesis by blast
qed

subsection \<open>C6: when \<^verbatim>\<open>serialize\<close> throws, and what\<close>

text \<open>
  C6, as amended. \<^verbatim>\<open>serialize\<close> returns a value exactly when opening the page, setting
  the viewport and closing the page resolve and, if the navigation leaves a response,
  serializing the document resolves too. So no outcome of the navigation (it rejects,
  it resolves with or without a response, events are seen or not) and no outcome of the
  lookup of the meta tag (no element, no content, content that is not a number, a
  rejection) makes \<^verbatim>\<open>serialize\<close> throw. When \<^verbatim>\<open>serialize\<close> throws, what it throws is the
  rejection of the first of those four calls that rejects, which no \<^verbatim>\<open>try\<close> surrounds:
  \<^verbatim>\<open>browser.newPage\<close>, then \<^verbatim>\<open>page.setViewport\<close>, then \<^verbatim>\<open>page.evaluate\<close> (called when there is
  a response), then \<^verbatim>\<open>page.close\<close>.
\<close>

theorem serialize_throws_exactly:
  "((\<exists>r. fst (serialize parseInt config b requestUrl isMobile) = Inr r) \<longleftrightarrow>
      browser_newPage b = Resolves () \<and> page_setViewport b = Resolves ()
      \<and> (fst (serialize_goto config b requestUrl) \<noteq> None \<longrightarrow>
           (\<exists>html. page_evaluate b = Resolves html))
      \<and> page_close b = Resolves ())
   \<and> (\<forall>err. fst (serialize parseInt config b requestUrl isMobile) = Inl err \<longrightarrow>
        (\<exists>e. err = Rejection e
           \<and> (browser_newPage b = Rejects e
              \<or> browser_newPage b = Resolves () \<and> page_setViewport b = Rejects e
              \<or> browser_newPage b = Resolves () \<and> page_setViewport b = Resolves ()
                 \<and> fst (serialize_goto config b requestUrl) \<noteq> None
                 \<and> page_evaluate b = Rejects e
              \<or> browser_newPage b = Resolves () \<and> page_setViewport b = Resolves ()
                 \<and> (fst (serialize_goto config b requestUrl) \<noteq> None \<longrightarrow>
                      (\<exists>html. page_evaluate b = Resolves html))
                 \<and> page_close b = Rejects e)))"
  unfolding fst_serialize
  by (auto split: outcome.splits option.splits)

text \<open>
  C6 as stated fails when the navigation resolves with a response of status 200 and
  the call of line 85, \<^verbatim>\<open>page.evaluate\<close>, rejects: \<^verbatim>\<open>serialize\<close> throws the rejection.
\<close>

theorem serialize_evaluate_rejected_counterexample:
  "page_goto ((example_browser (Resolves (Some \<lparr>response_status = 200\<rparr>)) [] (Resolves None))
          \<lparr>page_evaluate := Rejects ''Execution context was destroyed''\<rparr>)
     = Resolves (Some \<lparr>response_status = 200\<rparr>)
   \<and> fst (serialize parseInt10 example_config
        ((example_browser (Resolves (Some \<lparr>response_status = 200\<rparr>)) [] (Resolves None))
          \<lparr>page_evaluate := Rejects ''Execution context was destroyed''\<rparr>)
        ''http://example.com/'' False)
     = Inl (Rejection ''Execution context was destroyed'')"
  by (simp add: serialize_def serialize_goto_def example_defs)

text \<open>
  The theorem at a navigation that times out with no response and a lookup that
  rejects, and at a navigation that times out after a response, with a meta tag whose
  content is not a number: the four calls resolve, \<^verbatim>\<open>serialize\<close> returns. And at a
  rendered page that cannot be closed: \<^verbatim>\<open>serialize\<close> throws the rejection of \<^verbatim>\<open>page.close\<close>.
\<close>

theorem serialize_throws_exactly_witness:
  "(\<exists>r. fst (serialize parseInt10 example_config
        (example_browser (Rejects ''Navigation timeout'') [] (Rejects ''no element''))
        ''http://example.com/'' False) = Inr r)
   \<and> (\<exists>r. fst (serialize parseInt10 example_config
        (example_browser (Rejects ''Navigation timeout'') [\<lparr>response_status = 200\<rparr>]
           (Resolves (Some (meta_tag ''not a number''))))
        ''http://example.com/'' False) = Inr r)
   \<and> (\<exists>e. fst (serialize parseInt10 example_config
        ((example_browser (Resolves (Some \<lparr>response_status = 200\<rparr>)) [] (Resolves None))
          \<lparr>page_close := Rejects ''Target closed''\<rparr>)
        ''http://example.com/'' False) = Inl (Rejection e)
      \<and> page_close ((example_browser (Resolves (Some \<lparr>response_status = 200\<rparr>)) [] (Resolves None))
          \<lparr>page_close := Rejects ''Target closed''\<rparr>) = Rejects e)"
proof -
  let ?b = "example_browser (Rejects ''Navigation timeout'') [] (Rejects ''no element'')"
  let ?c = "example_browser (Rejects ''Navigation timeout'') [\<lparr>response_status = 200\<rparr>]
           (Resolves (Some (meta_tag ''not a number'')))"
  let ?d = "(example_browser (Resolves (Some \<lparr>response_status = 200\<rparr>)) [] (Resolves None))
          \<lparr>page_close := Rejects ''Target closed''\<rparr>"
  have hb: "browser_newPage ?b = Resolves ()" "page_setViewport ?b = Resolves ()"
    "page_evaluate ?b = Resolves ''<html></html>''" "page_close ?b = Resolves ()"
    by (simp_all add: example_browser_def)
  have hc: "browser_newPage ?c = Resolves ()" "page_setViewport ?c = Resolves ()"
    "page_evaluate ?c = Resolves ''<html></html>''" "page_close ?c = Resolves ()"
    by (simp_all add: example_browser_def)
  have hd: "browser_newPage ?d = Resolves ()" "page_setViewport ?d = Resolves ()"
    "page_evaluate ?d = Resolves ''<html></html>''" "page_close ?d = Rejects ''Target closed''"
    by (simp_all add: example_browser_def)
  from hb serialize_throws_exactly [of parseInt10 example_config ?b "''http://example.com/''" False]
  have 1: "\<exists>r. fst (serialize parseInt10 example_config ?b ''http://example.com/'' False) = Inr r"
    by blast
  from hc serialize_throws_exactly [of parseInt10 example_config ?c "''http://example.com/''" False]
  have 2: "\<exists>r. fst (serialize parseInt10 example_config ?c ''http://example.com/'' False) = Inr r"
    by blast
  have "\<not> (\<exists>r. fst (serialize parseInt10 example_config ?d ''http://example.com/'' False) = Inr r)"
    using hd serialize_throws_exactly [of parseInt10 example_config ?d "''http://example.com/''" False]
    by simp
  then obtain err where
    e: "fst (serialize parseInt10 example_config ?d ''http://example.com/'' False) = Inl err"
    by (cases "fst (serialize parseInt10 example_config ?d ''http://example.com/'' False)") auto
  with hd serialize_throws_exactly [of parseInt10 example_config ?d "''http://example.com/''" False]
  have 3: "\<exists>e. fst (serialize parseInt10 example_config ?d ''http://example.com/'' False)
                = Inl (Rejection e) \<and> page_close ?d = Rejects e"
    by auto
  from 1 2 3 show ?thesis by blast
qed

subsection \<open>C7: the status without a meta tag\<close>

text \<open>
  C7. Let the calls outside the navigation resolve, let the navigation leave a response
  and let the document have no meta tag \<^verbatim>\<open>render:status_code\<close>. Then \<^verbatim>\<open>serialize\<close>
  returns the status of the response unchanged, except that it returns 200 for 304.
\<close>

theorem serialize_status_without_override:
  assumes "browser_newPage b = Resolves ()" and "page_setViewport b = Resolves ()"
    and "page_evaluate b = Resolves html" and "page_close b = Resolves ()"
    and "fst (serialize_goto config b requestUrl) = Some response"
    and "page_querySelector b = Resolves None"
  shows "fst (serialize parseInt config b requestUrl isMobile)
           = Inr \<lparr>status = Finite (if response_status response = 304 then 200
                                     else response_status response),
                  content = html\<rparr>"
  using serialize_returns [OF assms(1-4)] assms(5,6)
  by (simp add: newStatusCode_def statusCode_None)

text \<open>The theorem at a response of status 304 and at a response of status 503.\<close>

theorem serialize_status_without_override_witness:
  "fst (serialize parseInt10 example_config
        (example_browser (Resolves (Some \<lparr>response_status = 304\<rparr>)) [] (Resolves None))
        ''http://example.com/'' False)
     = Inr \<lparr>status = Finite 200, content = ''<html></html>''\<rparr>
   \<and> fst (serialize parseInt10 example_config
        (example_browser (Resolves (Some \<lparr>response_status = 503\<rparr>)) [] (Resolves None))
        ''http://example.com/'' False)
     = Inr \<lparr>status = Finite 503, content = ''<html></html>''\<rparr>"
proof -
  let ?b = "example_browser (Resolves (Some \<lparr>response_status = 304\<rparr>)) [] (Resolves None)"
  let ?c = "example_browser (Resolves (Some \<lparr>response_status = 503\<rparr>)) [] (Resolves None)"
  have hb: "browser_newPage ?b = Resolves ()" "page_setViewport ?b = Resolves ()"
    "page_evaluate ?b = Resolves ''<html></html>''" "page_close ?b = Resolves ()"
    "fst (serialize_goto example_config ?b ''http://example.com/'') = Some \<lparr>response_status = 304\<rparr>"
    "page_querySelector ?b = Resolves None"
    by (simp_all add: example_browser_def serialize_goto_def)
  have hc: "browser_newPage ?c = Resolves ()" "page_setViewport ?c = Resolves ()"
    "page_evaluate ?c = Resolves ''<html></html>''" "page_close ?c = Resolves ()"
    "fst (serialize_goto example_config ?c ''http://example.com/'') = Some \<lparr>response_status = 503\<rparr>"
    "page_querySelector ?c = Resolves None"
    by (simp_all add: example_browser_def serialize_goto_def)
  from serialize_status_without_override [OF hb, where parseInt = parseInt10 and isMobile = False]
    serialize_status_without_override [OF hc, where parseInt = parseInt10 and isMobile = False]
  show ?thesis by simp
qed

subsection \<open>C8: the options of the capture and the error of \<^verbatim>\<open>screenshot\<close>\<close>

text \<open>
  C8. Let opening the page and setting the viewport resolve. When the navigation resolves
  with a response, \<^verbatim>\<open>screenshot\<close> calls \<^verbatim>\<open>page.screenshot\<close> once, with options whose
  \<^verbatim>\<open>type\<close> is \<^verbatim>\<open>jpeg\<close> and whose \<^verbatim>\<open>encoding\<close> is \<^verbatim>\<open>binary\<close>, whatever the caller has
  given for these two keys, and whose other keys are the caller's, unchanged. When the
  navigation resolves without a response or rejects, \<^verbatim>\<open>screenshot\<close> throws a
  \<open>ScreenshotError\<close> whose type is \<open>NoResponse\<close>. The type of such an error is one of
  \<open>Forbidden\<close> and \<open>NoResponse\<close>, and there is no other.
\<close>

theorem screenshot_capture_options:
  assumes "browser_newPage b = Resolves ()" and "page_setViewport b = Resolves ()"
  shows "(page_goto b = Resolves (Some response) \<longrightarrow>
            (\<exists>opts. filter isScreenshot (snd (screenshot b requestUrl isMobile dimensions options))
                       = [Screenshot opts]
               \<and> map_of opts ''type'' = Some (JStr ''jpeg'')
               \<and> map_of opts ''encoding'' = Some (JStr ''binary'')
               \<and> (\<forall>k. k \<noteq> ''type'' \<longrightarrow> k \<noteq> ''encoding'' \<longrightarrow>
                     map_of opts k = map_of (case options of None \<Rightarrow> [] | Some ps \<Rightarrow> ps) k)))
       \<and> (page_goto b = Resolves None \<or> page_goto b = Rejects e \<longrightarrow>
            (\<exists>err. fst (screenshot b requestUrl isMobile dimensions options)
                      = Inl (Screenshot_Error err)
               \<and> type err = NoResponse))
       \<and> (UNIV :: ErrorType set) = {Forbidden, NoResponse}"
proof -
  have a: "\<exists>opts. filter isScreenshot (snd (screenshot b requestUrl isMobile dimensions options))
                       = [Screenshot opts]
               \<and> map_of opts ''type'' = Some (JStr ''jpeg'')
               \<and> map_of opts ''encoding'' = Some (JStr ''binary'')
               \<and> (\<forall>k. k \<noteq> ''type'' \<longrightarrow> k \<noteq> ''encoding'' \<longrightarrow>
                     map_of opts k = map_of (case options of None \<Rightarrow> [] | Some ps \<Rightarrow> ps) k)"
    if "page_goto b = Resolves (Some response)"
  proof -
    have "fst (screenshot_goto b requestUrl) = Some response"
      using that by (simp add: fst_screenshot_goto)
    from screenshot_with_response [OF assms this]
    show ?thesis by (simp add: map_of_screenshotOptions)
  qed
  have b: "\<exists>err. fst (screenshot b requestUrl isMobile dimensions options)
                      = Inl (Screenshot_Error err) \<and> type err = NoResponse"
    if "page_goto b = Resolves None \<or> page_goto b = Rejects e"
  proof -
    have "fst (screenshot_goto b requestUrl) = None"
      using that by (auto simp add: fst_screenshot_goto)
    from screenshot_no_response [OF assms this]
    show ?thesis by (simp add: new_ScreenshotError_def)
  qed
  from a b ErrorType_UNIV show ?thesis by blast
qed

text \<open>
  The theorem at options that ask for \<^verbatim>\<open>png\<close> and \<^verbatim>\<open>base64\<close> and give a quality, and at a
  navigation that times out.
\<close>

theorem screenshot_capture_options_witness:
  "filter isScreenshot (snd (screenshot
        (example_browser (Resolves (Some \<lparr>response_status = 200\<rparr>)) [] (Resolves None))
        ''http://example.com/'' False example_dimensions
        (Some [(''type'', JStr ''png''), (''quality'', JNum (Finite 80)),
               (''encoding'', JStr ''base64'')])))
     = [Screenshot [(''type'', JStr ''jpeg''), (''quality'', JNum (Finite 80)),
                    (''encoding'', JStr ''binary'')]]
   \<and> fst (screenshot (example_browser (Rejects ''Navigation timeout'') [] (Resolves None))
        ''http://example.com/'' False example_dimensions
        (Some [(''type'', JStr ''png''), (''quality'', JNum (Finite 80)),
               (''encoding'', JStr ''base64'')]))
     = Inl (Screenshot_Error
         \<lparr>message = ''NoResponse'', name = ''ScreenshotError'', type = NoResponse\<rparr>)"
proof -
  let ?b = "example_browser (Resolves (Some \<lparr>response_status = 200\<rparr>)) [] (Resolves None)"
  let ?c = "example_browser (Rejects ''Navigation timeout'') [] (Resolves None)"
  let ?o = "Some [(''type'', JStr ''png''), (''quality'', JNum (Finite 80)),
               (''encoding'', JStr ''base64'')]"
  have hb: "browser_newPage ?b = Resolves ()" "page_setViewport ?b = Resolves ()"
    and gb: "page_goto ?b = Resolves (Some \<lparr>response_status = 200\<rparr>)"
    by (simp_all add: example_browser_def)
  have hc: "browser_newPage ?c = Resolves ()" "page_setViewport ?c = Resolves ()"
    and gc: "page_goto ?c = Rejects ''Navigation timeout''"
    by (simp_all add: example_browser_def)
  have t: "snd (screenshot ?b ''http://example.com/'' False example_dimensions ?o)
     = [NewPage, SetViewport 800 600 False, Goto ''http://example.com/'' 10000 ''networkidle0'',
        Screenshot [(''type'', JStr ''jpeg''), (''quality'', JNum (Finite 80)),
                    (''encoding'', JStr ''binary'')], Close]"
    by (simp add: screenshot_def screenshot_goto_def screenshotOptions_def example_defs)
  from screenshot_capture_options [OF hb, where response = "\<lparr>response_status = 200\<rparr>"
      and requestUrl = "''http://example.com/''" and isMobile = False
      and dimensions = example_dimensions and options = ?o] gb
  have "\<exists>opts. filter isScreenshot (snd (screenshot ?b ''http://example.com/'' False example_dimensions ?o))
                       = [Screenshot opts]
               \<and> map_of opts ''type'' = Some (JStr ''jpeg'')"
    by blast
  with t have a: "filter isScreenshot (snd (screenshot ?b ''http://example.com/'' False example_dimensions ?o))
     = [Screenshot [(''type'', JStr ''jpeg''), (''quality'', JNum (Finite 80)),
                    (''encoding'', JStr ''binary'')]]"
    by simp
  from screenshot_capture_options [OF hc, where e = "''Navigation timeout''"
      and requestUrl = "''http://example.com/''" and isMobile = False
      and dimensions = example_dimensions and options = ?o] gc
  obtain err where "fst (screenshot ?c ''http://example.com/'' False example_dimensions ?o)
                      = Inl (Screenshot_Error err)" and "type err = NoResponse"
    by blast
  moreover have "fst (screenshot ?c ''http://example.com/'' False example_dimensions ?o)
     = Inl (Screenshot_Error (new_ScreenshotError NoResponse))"
    by (simp add: screenshot_def screenshot_goto_def example_defs)
  ultimately have b: "fst (screenshot ?c ''http://example.com/'' False example_dimensions ?o)
     = Inl (Screenshot_Error
         \<lparr>message = ''NoResponse'', name = ''ScreenshotError'', type = NoResponse\<rparr>)"
    by (simp add: new_ScreenshotError_def)
  from a b show ?thesis by simp
qed

subsection \<open>C9: the override is adopted when it is truthy, with no check of its range\<close>

text \<open>
  C9. Let the calls outside the navigation resolve, let the navigation leave a response
  of status 200 or 304 and let the document have the meta tag. If \<^verbatim>\<open>parseInt\<close> reads its
  content as \<open>NaN\<close> or as zero, \<^verbatim>\<open>serialize\<close> returns the status 200; otherwise it returns
  what \<^verbatim>\<open>parseInt\<close> has read, as it is: negative, or beyond the range of HTTP statuses.
\<close>

theorem serialize_override_truthiness:
  assumes "browser_newPage b = Resolves ()" and "page_setViewport b = Resolves ()"
    and "page_evaluate b = Resolves html" and "page_close b = Resolves ()"
    and "fst (serialize_goto config b requestUrl) = Some response"
    and "response_status response = 200 \<or> response_status response = 304"
    and "page_querySelector b = Resolves (Some element)"
  shows "fst (serialize parseInt config b requestUrl isMobile) =
     Inr \<lparr>status =
            (let v = parseInt (or_empty (getAttribute element ''content''))
             in if v = NaN \<or> v = Finite 0 then Finite 200 else v),
          content = html\<rparr>"
proof -
  have t: "truthy v \<longleftrightarrow> \<not> (v = NaN \<or> v = Finite 0)" for v
    by (cases v) simp_all
  show ?thesis
    using serialize_returns [OF assms(1-4)] assms(5-7)
    by (auto simp add: newStatusCode_def statusCode_override t Let_def)
qed

text \<open>The theorem at the contents \<^verbatim>\<open>-5\<close>, \<^verbatim>\<open>99999\<close> and \<^verbatim>\<open>none\<close>.\<close>

theorem serialize_override_truthiness_witness:
  "fst (serialize parseInt10 example_config
        (example_browser (Resolves (Some \<lparr>response_status = 200\<rparr>)) []
           (Resolves (Some (meta_tag ''-5''))))
        ''http://example.com/'' False)
     = Inr \<lparr>status = Finite (- 5), content = ''<html></html>''\<rparr>
   \<and> fst (serialize parseInt10 example_config
        (example_browser (Resolves (Some \<lparr>response_status = 304\<rparr>)) []
           (Resolves (Some (meta_tag ''99999''))))
        ''http://example.com/'' False)
     = Inr \<lparr>status = Finite 99999, content = ''<html></html>''\<rparr>
   \<and> fst (serialize parseInt10 example_config
        (example_browser (Resolves (Some \<lparr>response_status = 200\<rparr>)) []
           (Resolves (Some (meta_tag ''none''))))
        ''http://example.com/'' False)
     = Inr \<lparr>status = Finite 200, content = ''<html></html>''\<rparr>"
proof -
  let ?b = "\<lambda>s c. example_browser (Resolves (Some \<lparr>response_status = s\<rparr>)) []
           (Resolves (Some (meta_tag c)))"
  have h: "browser_newPage (?b s c) = Resolves ()" "page_setViewport (?b s c) = Resolves ()"
    "page_evaluate (?b s c) = Resolves ''<html></html>''" "page_close (?b s c) = Resolves ()"
    "fst (serialize_goto example_config (?b s c) ''http://example.com/'') = Some \<lparr>response_status = s\<rparr>"
    for s c
    by (simp_all add: example_browser_def serialize_goto_def)
  have q: "page_querySelector (?b s c) = Resolves (Some (meta_tag c))" for s c
    by (simp add: example_browser_def)
  have p: "parseInt10 (or_empty (getAttribute (meta_tag ''-5'') ''content'')) = Finite (- 5)"
    "parseInt10 (or_empty (getAttribute (meta_tag ''99999'') ''content'')) = Finite 99999"
    "parseInt10 (or_empty (getAttribute (meta_tag ''none'') ''content'')) = NaN"
    by (simp_all add: example_defs parseInt10_defs)
  from serialize_override_truthiness [OF h [of 200 "''-5''"] _ q [of 200 "''-5''"],
      where parseInt = parseInt10 and isMobile = False]
    serialize_override_truthiness [OF h [of 304 "''99999''"] _ q [of 304 "''99999''"],
      where parseInt = parseInt10 and isMobile = False]
    serialize_override_truthiness [OF h [of 200 "''none''"] _ q [of 200 "''none''"],
      where parseInt = parseInt10 and isMobile = False] p
  show ?thesis by simp
qed

subsection \<open>C10: \<^verbatim>\<open>screenshot\<close> has no listener\<close>



end
